theory Spec2Isabelle
  imports Complex_Main "HOL-Library.Sublist"
begin

section \<open>Text: Python \<open>str\<close> operations used by the backend\<close>

text \<open>
  A Python \<open>str\<close> is modelled as a HOL \<open>string\<close>; a character stands for the code
  point of the same number (0 to 255). The two character classes below are the ones
  Python's \<open>str.strip\<close>, \<open>\s\<close>, \<open>\w\<close> and \<open>\b\<close> use on that range.
\<close>

definition is_space :: "char \<Rightarrow> bool" where
  "is_space c =
     (let n = (of_char c :: nat)
      in (9 \<le> n \<and> n \<le> 13) \<or> (28 \<le> n \<and> n \<le> 32) \<or> n = 133 \<or> n = 160)"

definition is_word :: "char \<Rightarrow> bool" where
  "is_word c =
     (let n = (of_char c :: nat)
      in (48 \<le> n \<and> n \<le> 57) \<or> (65 \<le> n \<and> n \<le> 90) \<or> n = 95 \<or> (97 \<le> n \<and> n \<le> 122)
         \<or> n = 170 \<or> n = 178 \<or> n = 179 \<or> n = 181 \<or> n = 185 \<or> n = 186
         \<or> (188 \<le> n \<and> n \<le> 190) \<or> (192 \<le> n \<and> n \<le> 214) \<or> (216 \<le> n \<and> n \<le> 246)
         \<or> (248 \<le> n \<and> n \<le> 255))"

text \<open>\<open>s.strip()\<close>: leading and trailing whitespace removed.\<close>

definition strip :: "string \<Rightarrow> string" where
  "strip s = rev (dropWhile is_space (rev (dropWhile is_space s)))"

text \<open>
  \<open>s.upper()\<close> and \<open>s.lower()\<close>. The backend only compares the result with the ASCII
  words \<open>HIGH\<close>, \<open>MEDIUM\<close> and \<open>.py\<close>; the letters a to z are the only characters of
  the modelled range that Python maps to or from these, so the other characters stay.
\<close>

definition upper_char :: "char \<Rightarrow> char" where
  "upper_char c =
     (let n = (of_char c :: nat) in if 97 \<le> n \<and> n \<le> 122 then char_of (n - 32) else c)"

definition lower_char :: "char \<Rightarrow> char" where
  "lower_char c =
     (let n = (of_char c :: nat) in if 65 \<le> n \<and> n \<le> 90 then char_of (n + 32) else c)"

definition upper :: "string \<Rightarrow> string" where
  "upper s = map upper_char s"

definition lower :: "string \<Rightarrow> string" where
  "lower s = map lower_char s"

definition startswith :: "string \<Rightarrow> string \<Rightarrow> bool" where
  "startswith s p = prefix p s"

definition endswith :: "string \<Rightarrow> string \<Rightarrow> bool" where
  "endswith s p = suffix p s"

text \<open>\<open>x or d\<close> on an optional string: \<open>None\<close> and the empty string are falsy.\<close>

definition or_else :: "string option \<Rightarrow> string \<Rightarrow> string" where
  "or_else x d = (case x of None \<Rightarrow> d | Some s \<Rightarrow> if s = [] then d else s)"

section \<open>Regular expressions: the two patterns of the testing heuristic\<close>

text \<open>
  \<open>re.search\<close> is Python's library. The fragment the backend's patterns use is
  modelled here: literal characters, \<open>\s\<close>, \<open>\b\<close>, sequence, alternation and \<open>+\<close>.
  A position is the character before the cursor (none at the start of the text) and
  the text after it; matching a pattern from a position gives every position at which
  a match can end.
\<close>

datatype rx = Eps | Chr char | Space | WordB | Cat rx rx | Alt rx rx | Many1 rx

type_synonym pos = "char option \<times> string"

definition word_opt :: "char option \<Rightarrow> bool" where
  "word_opt p = (case p of None \<Rightarrow> False | Some c \<Rightarrow> is_word c)"

definition next_char :: "string \<Rightarrow> char option" where
  "next_char s = (case s of [] \<Rightarrow> None | c # _ \<Rightarrow> Some c)"

text \<open>\<open>\b\<close>: exactly one side of the cursor is a word character.\<close>

definition at_boundary :: "pos \<Rightarrow> bool" where
  "at_boundary st = (word_opt (fst st) \<noteq> word_opt (next_char (snd st)))"

text \<open>
  One or more repetitions of a step \<open>f\<close>: one repetition, and after every repetition
  that consumed text, more of them. The fuel is the length of the remaining text.
\<close>

fun many1 :: "(pos \<Rightarrow> pos list) \<Rightarrow> nat \<Rightarrow> pos \<Rightarrow> pos list" where
  "many1 f 0 st = f st"
| "many1 f (Suc n) st =
     (let rs = f st
      in rs @ concat (map (many1 f n) (filter (\<lambda>q. length (snd q) < length (snd st)) rs)))"

fun rx_run :: "rx \<Rightarrow> pos \<Rightarrow> pos list" where
  "rx_run Eps st = [st]"
| "rx_run (Chr c) st =
     (case snd st of [] \<Rightarrow> [] | x # xs \<Rightarrow> if x = c then [(Some x, xs)] else [])"
| "rx_run Space st =
     (case snd st of [] \<Rightarrow> [] | x # xs \<Rightarrow> if is_space x then [(Some x, xs)] else [])"
| "rx_run WordB st = (if at_boundary st then [st] else [])"
| "rx_run (Cat a b) st = concat (map (\<lambda>q. rx_run b q) (rx_run a st))"
| "rx_run (Alt a b) st = rx_run a st @ rx_run b st"
| "rx_run (Many1 a) st = many1 (\<lambda>q. rx_run a q) (length (snd st)) st"

fun lit :: "string \<Rightarrow> rx" where
  "lit [] = Eps"
| "lit [c] = Chr c"
| "lit (c # cs) = Cat (Chr c) (lit cs)"

text \<open>\<open>re.search\<close>: a match may start at any position of the text, the end included.\<close>

fun search_from :: "rx \<Rightarrow> char option \<Rightarrow> string \<Rightarrow> bool" where
  "search_from r p [] = (rx_run r (p, []) \<noteq> [])"
| "search_from r p (x # xs) = (rx_run r (p, x # xs) \<noteq> [] \<or> search_from r (Some x) xs)"

definition re_search :: "rx \<Rightarrow> string \<Rightarrow> bool" where
  "re_search r s = search_from r None s"

text \<open>\<open>r"\bimport\s+(unittest|pytest)\b"\<close>\<close>

definition rx_import :: rx where
  "rx_import =
     Cat WordB (Cat (lit ''import'') (Cat (Many1 Space)
       (Cat (Alt (lit ''unittest'') (lit ''pytest'')) WordB)))"

text \<open>\<open>r"\bdef\s+test_"\<close>\<close>

definition rx_def_test :: rx where
  "rx_def_test = Cat WordB (Cat (lit ''def'') (Cat (Many1 Space) (lit ''test_'')))"

definition has_tests :: "string \<Rightarrow> bool" where
  "has_tests code = (re_search rx_import code \<or> re_search rx_def_test code)"

section \<open>Numbers\<close>

text \<open>
  A metric is a finite Python number, represented by its exact value. \<open>round\<close> on it
  rounds to the nearest integer, a tie to the even one.
\<close>

definition py_round :: "rat \<Rightarrow> int" where
  "py_round x =
     (let f = floor x; d = x - of_int f
      in if d < 1 / 2 then f else if 1 / 2 < d then f + 1
         else if even f then f else f + 1)"

definition clamp :: "'a::linorder \<Rightarrow> 'a \<Rightarrow> 'a \<Rightarrow> 'a" where
  "clamp v lo hi = max lo (min hi v)"

section \<open>Data\<close>

record issue =
  type :: "string option"
  detail :: "string option"
  line :: "int option"

record metrics =
  mi :: "rat option"
  avg_cc :: "rat option"
  max_cc :: "rat option"

text \<open>
  A key of a decoded JSON object that is read with a default: absent, \<open>null\<close>, or
  a value. A key read without a default is an option: \<open>None\<close> when absent or
  \<open>null\<close>.
\<close>

datatype 'a field = Missing | Null | Val 'a

text \<open>A Bandit finding, with the fields the backend reads.\<close>

record sec_finding =
  test_id :: "string field"
  issue_text :: "string field"
  line_number :: "int option"
  issue_severity :: "string option"

record scores =
  readability :: int
  complexity :: int
  security :: int
  testing :: int

section \<open>Score derivation\<close>

definition has_syntax_error :: "issue list \<Rightarrow> bool" where
  "has_syntax_error issues = list_ex (\<lambda>i. type i = Some ''SYNTAX_ERROR'') issues"

definition severity_penalty :: "sec_finding \<Rightarrow> int" where
  "severity_penalty f =
     (let sev = upper (or_else (issue_severity f) [])
      in if sev = ''HIGH'' then 20 else if sev = ''MEDIUM'' then 10 else 5)"

text \<open>The loop over the findings, adding each penalty to the running total.\<close>

fun penalty_loop :: "int \<Rightarrow> sec_finding list \<Rightarrow> int" where
  "penalty_loop penalty [] = penalty"
| "penalty_loop penalty (f # fs) = penalty_loop (penalty + severity_penalty f) fs"

definition complexity_score :: "rat option \<Rightarrow> int" where
  "complexity_score a =
     (case a of
        Some avg \<Rightarrow>
          if avg \<le> 1 then 95
          else if avg \<le> 3 then 85
          else if avg \<le> 6 then 70
          else if avg \<le> 10 then 55
          else 35
      | None \<Rightarrow> 0)"

definition score_from :: "metrics \<Rightarrow> issue list \<Rightarrow> sec_finding list \<Rightarrow> string \<Rightarrow> scores" where
  "score_from m issues sec_findings code =
     (if has_syntax_error issues then
        \<lparr>readability = 0, complexity = 0,
         security = (if sec_findings = [] then 0 else 30), testing = 0\<rparr>
      else
        let rd = clamp (case mi m of Some v \<Rightarrow> v | None \<Rightarrow> 0) 0 100;
            cx = complexity_score (avg_cc m);
            penalty = penalty_loop 0 sec_findings;
            sc = clamp (95 - penalty) 0 95;
            ts = (if has_tests code then 80 else 20)
        in \<lparr>readability = py_round rd, complexity = cx, security = sc, testing = ts\<rparr>)"

section \<open>Suggestions\<close>

text \<open>\<open>str(n)\<close> of a count: its decimal digits.\<close>

definition digit_char :: "nat \<Rightarrow> char" where
  "digit_char d = ''0123456789'' ! d"

fun str_nat :: "nat \<Rightarrow> string" where
  "str_nat n = (if n < 10 then [digit_char n] else str_nat (n div 10) @ [digit_char (n mod 10)])"

declare str_nat.simps [simp del]

text \<open>The set of the issue types that are neither \<open>None\<close> nor empty.\<close>

definition codes_of :: "issue list \<Rightarrow> string set" where
  "codes_of issues =
     set (concat (map (\<lambda>i. case type i of None \<Rightarrow> [] | Some t \<Rightarrow> if t = [] then [] else [t])
                      issues))"

definition high_findings :: "sec_finding list \<Rightarrow> sec_finding list" where
  "high_findings sec_findings =
     filter (\<lambda>f. upper (or_else (issue_severity f) []) = ''HIGH'') sec_findings"

definition sugg_syntax :: string where
  "sugg_syntax = ''Fix the syntax error first so static analysis can run cleanly.''"

definition sugg_unused :: string where
  "sugg_unused = ''Remove unused imports (ruff F401).''"

definition sugg_spacing :: string where
  "sugg_spacing = ''Apply PEP 8 spacing around functions/classes.''"

definition sugg_long_lines :: string where
  "sugg_long_lines = ''Wrap long lines (E501) to improve readability.''"

definition sugg_bandit :: string where
  "sugg_bandit = ''Review potential security issues flagged by Bandit.''"

definition sugg_complexity :: string where
  "sugg_complexity = ''Refactor large/nested functions to reduce cyclomatic complexity.''"

definition sugg_maintainability :: string where
  "sugg_maintainability =
     ''Increase maintainability: simplify logic, extract helpers, add docstrings.''"

definition sugg_high :: "nat \<Rightarrow> string" where
  "sugg_high n = ''Address '' @ str_nat n @ '' HIGH-severity Bandit finding(s) immediately.''"

definition sugg_hardening :: string where
  "sugg_hardening = ''Resolve Bandit MED/LOW findings as part of hardening.''"

definition sugg_tests :: string where
  "sugg_tests = ''Add unit tests (pytest or unittest) for critical paths and edge cases.''"

definition sugg_fallback :: string where
  "sugg_fallback = ''Looks good. Consider docstrings and a few tests to lock behavior in.''"

text \<open>
  Each \<open>if\<close> of the source appends at most one text to \<open>sugg\<close>; the list grows in
  the order of the statements.
\<close>

definition build_suggestions ::
  "metrics \<Rightarrow> issue list \<Rightarrow> sec_finding list \<Rightarrow> string \<Rightarrow> string list" where
  "build_suggestions m issues sec_findings code =
     (let codes = codes_of issues;
          hi = high_findings sec_findings;
          sugg =
            (if has_syntax_error issues then [sugg_syntax] else [])
            @ (if ''F401'' \<in> codes then [sugg_unused] else [])
            @ (if ''E302'' \<in> codes \<or> ''E305'' \<in> codes then [sugg_spacing] else [])
            @ (if ''E501'' \<in> codes then [sugg_long_lines] else [])
            @ (if (\<exists>c \<in> codes. startswith c ''B'') then [sugg_bandit] else [])
            @ (case avg_cc m of Some a \<Rightarrow> if 6 < a then [sugg_complexity] else [] | None \<Rightarrow> [])
            @ (case mi m of Some v \<Rightarrow> if v < 60 then [sugg_maintainability] else [] | None \<Rightarrow> [])
            @ (if hi \<noteq> [] then [sugg_high (length hi)]
               else if sec_findings \<noteq> [] then [sugg_hardening] else [])
            @ (if \<not> has_tests code then [sugg_tests] else [])
      in if sugg = [] then [sugg_fallback] else sugg)"

section \<open>Summary line\<close>

text \<open>
  \<open>f"{x:.Nf}"\<close> on a finite number: the sign, then the value rounded to \<open>N\<close> decimals
  (a tie to the even digit), with exactly \<open>N\<close> digits after the point and no point
  when \<open>N\<close> is 0. The sign of a negative number stays when it rounds to zero.
  An integer is formatted as the float of the same value.
\<close>

definition fmt_fixed :: "nat \<Rightarrow> rat \<Rightarrow> string" where
  "fmt_fixed d x =
     (let n = nat (py_round (abs x * 10 ^ d));
          ds = str_nat (n mod 10 ^ d)
      in (if x < 0 then ''-'' else []) @ str_nat (n div 10 ^ d)
         @ (if d = 0 then [] else ''.'' @ replicate (d - length ds) (CHR ''0'') @ ds))"

definition cx_label :: "rat option \<Rightarrow> string" where
  "cx_label a =
     (case a of
        Some avg \<Rightarrow>
          if avg = 0 then ''trivial''
          else if avg \<le> 3 then ''low''
          else if avg \<le> 6 then ''moderate''
          else if avg \<le> 10 then ''high''
          else ''very high''
      | None \<Rightarrow> ''n/a'')"

definition pretty_summary :: "metrics \<Rightarrow> nat \<Rightarrow> nat \<Rightarrow> string" where
  "pretty_summary m lint_count sec_count =
     (let mi_txt = (case mi m of None \<Rightarrow> ''n/a'' | Some v \<Rightarrow> fmt_fixed 0 v);
          avg_txt = (case avg_cc m of None \<Rightarrow> ''n/a'' | Some v \<Rightarrow> fmt_fixed 1 v);
          max_txt = (case max_cc m of None \<Rightarrow> ''n/a'' | Some v \<Rightarrow> fmt_fixed 1 v)
      in ''Maintainability Index: '' @ mi_txt @ '' | ''
         @ ''Complexity: avg '' @ avg_txt @ '' ('' @ cx_label (avg_cc m) @ ''), max '' @ max_txt
         @ '' | ''
         @ ''Ruff: '' @ str_nat lint_count @ '' issues | ''
         @ ''Bandit: '' @ str_nat sec_count @ '' findings'')"

text \<open>
  The renderings in the words of the specification, to compare \<open>pretty_summary\<close>
  with: a number as an integer (the sign, then the digits of the integer nearest to
  its magnitude), a number to one decimal (the sign, the digits of the integer part, a
  point and one digit, from the magnitude rounded to tenths), and \<open>n/a\<close> for a
  number that is unavailable.
\<close>

definition spec_integer_text :: "rat \<Rightarrow> string" where
  "spec_integer_text x = (if x < 0 then ''-'' else []) @ str_nat (nat (py_round (abs x)))"

definition spec_one_decimal_text :: "rat \<Rightarrow> string" where
  "spec_one_decimal_text x =
     (let tenths = nat (py_round (abs x * 10))
      in (if x < 0 then ''-'' else []) @ str_nat (tenths div 10) @ ''.''
         @ [digit_char (tenths mod 10)])"

definition spec_or_na :: "(rat \<Rightarrow> string) \<Rightarrow> rat option \<Rightarrow> string" where
  "spec_or_na render v = (case v of None \<Rightarrow> ''n/a'' | Some x \<Rightarrow> render x)"

section \<open>The environment: processes, files and decoded tool output\<close>

text \<open>
  What lies outside the repository is a parameter of the model: the Python compiler,
  \<open>subprocess.run\<close>, the temporary file and \<open>json.loads\<close>. An exception is a value;
  \<open>FileNotFoundError\<close> is the one the adapters tell apart, every other exception is
  \<open>OtherException\<close>; both carry \<open>str(e)\<close>.
\<close>

datatype exn = FileNotFoundError string | OtherException string

fun exn_str :: "exn \<Rightarrow> string" where
  "exn_str (FileNotFoundError s) = s"
| "exn_str (OtherException s) = s"

record completed =
  returncode :: int
  stdout :: string
  stderr :: string

text \<open>\<open>d.get(key, default)\<close>: the default only when the key is absent.\<close>

fun get_default :: "'a field \<Rightarrow> 'a \<Rightarrow> 'a option" where
  "get_default Missing d = Some d"
| "get_default Null d = None"
| "get_default (Val v) d = Some v"

text \<open>
  A ruff finding. \<open>ruff_location\<close> is the \<open>location\<close> object, given by its \<open>row\<close>.
\<close>

record ruff_finding =
  ruff_code :: "string field"
  ruff_message :: "string field"
  ruff_location :: "int option field"

text \<open>
  The value under the file's path in \<open>radon mi -j\<close>: an object, given by its \<open>mi\<close>
  number; a list, given by the \<open>mi\<close> numbers of its elements; or anything else. A
  number is \<open>None\<close> where the value is absent or not a number.
\<close>

datatype mi_raw = MiDict "rat option" | MiList "rat option list" | MiOther

record env =
  compile :: "string \<Rightarrow> exn + (string \<times> int option) option"
  subprocess_run :: "string list \<Rightarrow> nat \<Rightarrow> exn + completed"
  mktemp :: "string \<Rightarrow> exn + string"
  ruff_json :: "string \<Rightarrow> exn + ruff_finding list"
  radon_mi_json :: "string \<Rightarrow> string \<Rightarrow> exn + mi_raw"
  radon_cc_json :: "string \<Rightarrow> string \<Rightarrow> exn + int option list"
  bandit_json :: "string \<Rightarrow> exn + sec_finding list option"
  truediv :: "int \<Rightarrow> int \<Rightarrow> rat"

text \<open>
  \<open>compile e src\<close> is \<open>Inr None\<close> when the source parses, \<open>Inr\<close> of the message
  and line of the \<open>SyntaxError\<close> when it does not, and \<open>Inl\<close> of any other exception
  the compiler raises (\<open>RecursionError\<close> or \<open>MemoryError\<close> on a deeply nested
  source, \<open>ValueError\<close> on a null byte). \<open>mktemp e src\<close> writes the source to a new temporary
  file and gives its path. \<open>ruff_json\<close> decodes ruff's standard output;
  \<open>radon_mi_json\<close> and \<open>radon_cc_json\<close> decode radon's and look the path up (the
  second gives the \<open>complexity\<close> of every entry, \<open>None\<close> where it is not a number);
  \<open>bandit_json\<close> gives the \<open>results\<close> list of Bandit's document, \<open>None\<close> when the
  document is not an object. \<open>truediv a b\<close> is Python's \<open>a / b\<close> on integers.
\<close>

section \<open>Analyzer adapters\<close>

definition run :: "env \<Rightarrow> string list \<Rightarrow> nat \<Rightarrow> exn + completed" where
  "run e cmd timeout = subprocess_run e cmd timeout"

text \<open>
  Only \<open>SyntaxError\<close> is caught and turned into an issue; any other exception of
  the compiler leaves the function.
\<close>

definition syntax_check :: "env \<Rightarrow> string \<Rightarrow> exn + issue option" where
  "syntax_check e src =
     (case compile e src of
        Inl x \<Rightarrow> Inl x
      | Inr None \<Rightarrow> Inr None
      | Inr (Some (msg, lineno)) \<Rightarrow>
          Inr (Some \<lparr>type = Some ''SYNTAX_ERROR'', detail = Some msg,
                     line = (case lineno of
                               None \<Rightarrow> None
                             | Some n \<Rightarrow> if n = 0 then None else Some n)\<rparr>))"

text \<open>One ruff finding as an issue; a \<open>location\<close> of \<open>null\<close> has no \<open>get\<close>.\<close>

definition ruff_issue :: "ruff_finding \<Rightarrow> exn + issue" where
  "ruff_issue f =
     (case ruff_location f of
        Null \<Rightarrow> Inl (OtherException ''AttributeError'')
      | Missing \<Rightarrow>
          Inr \<lparr>type = get_default (ruff_code f) ''RUFF'',
               detail = get_default (ruff_message f) ''Lint'', line = None\<rparr>
      | Val r \<Rightarrow>
          Inr \<lparr>type = get_default (ruff_code f) ''RUFF'',
               detail = get_default (ruff_message f) ''Lint'', line = r\<rparr>)"

fun ruff_issues :: "ruff_finding list \<Rightarrow> exn + issue list" where
  "ruff_issues [] = Inr []"
| "ruff_issues (f # fs) =
     (case ruff_issue f of
        Inl x \<Rightarrow> Inl x
      | Inr i \<Rightarrow> (case ruff_issues fs of Inl x \<Rightarrow> Inl x | Inr is \<Rightarrow> Inr (i # is)))"

definition run_ruff :: "env \<Rightarrow> string \<Rightarrow> exn + issue list" where
  "run_ruff e path =
     (case run e [''ruff'', ''check'', path, ''--output-format'', ''json''] 20 of
        Inl (FileNotFoundError s) \<Rightarrow>
          Inr [\<lparr>type = Some ''RUFF_MISSING'', detail = Some ''ruff not installed in venv'',
                line = None\<rparr>]
      | Inl (OtherException s) \<Rightarrow>
          Inr [\<lparr>type = Some ''RUFF_ERROR'', detail = Some s, line = None\<rparr>]
      | Inr out \<Rightarrow>
          if returncode out \<noteq> 0 \<and> returncode out \<noteq> 1 then
            Inr [\<lparr>type = Some ''RUFF_ERROR'',
                  detail = Some (strip (if stderr out = [] then ''ruff failed'' else stderr out)),
                  line = None\<rparr>]
          else if strip (stdout out) \<noteq> [] then
            (case ruff_json e (stdout out) of
               Inl x \<Rightarrow> Inl x
             | Inr findings \<Rightarrow> ruff_issues findings)
          else Inr [])"

text \<open>The maintainability index: any exception leaves it unavailable.\<close>

definition radon_mi :: "env \<Rightarrow> string \<Rightarrow> rat option" where
  "radon_mi e path =
     (case run e [''radon'', ''mi'', ''-j'', path] 20 of
        Inl x \<Rightarrow> None
      | Inr out \<Rightarrow>
          if returncode out = 0 \<and> strip (stdout out) \<noteq> [] then
            (case radon_mi_json e (stdout out) path of
               Inl x \<Rightarrow> None
             | Inr (MiDict v) \<Rightarrow> v
             | Inr (MiList []) \<Rightarrow> None
             | Inr (MiList (v # vs)) \<Rightarrow> v
             | Inr MiOther \<Rightarrow> None)
          else None)"

text \<open>
  The cyclomatic complexity, average and maximum: any exception leaves both
  unavailable; a run that reports nothing gives 0 for both.
\<close>

definition radon_cc :: "env \<Rightarrow> string \<Rightarrow> rat option \<times> rat option" where
  "radon_cc e path =
     (case run e [''radon'', ''cc'', ''-s'', ''-j'', path] 20 of
        Inl x \<Rightarrow> (None, None)
      | Inr out \<Rightarrow>
          if returncode out = 0 \<and> strip (stdout out) \<noteq> [] then
            (case radon_cc_json e (stdout out) path of
               Inl x \<Rightarrow> (None, None)
             | Inr entries \<Rightarrow>
                 if entries \<noteq> [] then
                   (let nums = concat (map (\<lambda>c. case c of None \<Rightarrow> [] | Some n \<Rightarrow> [n]) entries)
                    in if nums \<noteq> [] then
                         (Some (truediv e (sum_list nums) (int (length nums))),
                          Some (of_int (fold max nums (hd nums))))
                       else (Some 0, Some 0))
                 else (Some 0, Some 0))
          else (Some 0, Some 0))"

definition run_radon_metrics :: "env \<Rightarrow> string \<Rightarrow> metrics" where
  "run_radon_metrics e path =
     \<lparr>mi = radon_mi e path, avg_cc = fst (radon_cc e path), max_cc = snd (radon_cc e path)\<rparr>"

text \<open>
  Bandit's raw findings. The lookup of \<open>results\<close> stands outside the \<open>try\<close>, so a
  document that is not an object raises.
\<close>

definition run_bandit :: "env \<Rightarrow> string \<Rightarrow> exn + sec_finding list" where
  "run_bandit e path =
     (case run e [''bandit'', ''-q'', ''-f'', ''json'', path] 30 of
        Inl (FileNotFoundError s) \<Rightarrow> Inr []
      | Inl (OtherException s) \<Rightarrow> Inr []
      | Inr out \<Rightarrow>
          if returncode out \<noteq> 0 \<and> returncode out \<noteq> 1 then Inr []
          else
            (case bandit_json e (if stdout out = [] then ''{}'' else stdout out) of
               Inl x \<Rightarrow> Inr []
             | Inr None \<Rightarrow> Inl (OtherException ''AttributeError'')
             | Inr (Some results) \<Rightarrow> Inr results))"

section \<open>Execution sandbox\<close>

text \<open>\<open>sep.join(pieces)\<close>\<close>

fun join :: "string \<Rightarrow> string list \<Rightarrow> string" where
  "join sep [] = []"
| "join sep [p] = p"
| "join sep (p # ps) = p @ sep @ join sep ps"

text \<open>
  The temporary file is written before the \<open>try\<close>: a failure there is the only
  exception that leaves the function. The process is run inside the \<open>try\<close>.
\<close>

definition run_code_output :: "env \<Rightarrow> string \<Rightarrow> exn + string" where
  "run_code_output e src =
     (case mktemp e src of
        Inl x \<Rightarrow> Inl x
      | Inr path \<Rightarrow>
          Inr (case subprocess_run e [''python'', path] 5 of
                 Inl x \<Rightarrow> ''Runtime error: '' @ exn_str x
               | Inr out \<Rightarrow>
                   (let pieces =
                          (if strip (stdout out) \<noteq> [] then [strip (stdout out)] else [])
                          @ (if strip (stderr out) \<noteq> [] then [''ERR: '' @ strip (stderr out)]
                             else [])
                    in if pieces \<noteq> [] then join [CHR 0x0A] pieces else ''(no output)'')))"

section \<open>The review request\<close>

text \<open>
  The decoded body, a JSON object with two text fields: each is \<open>None\<close> when absent
  or \<open>null\<close>.
\<close>

record request =
  req_filename :: "string option"
  req_code :: "string option"

record review_result =
  res_summary :: string
  res_issues :: "issue list"
  res_scores :: scores
  res_output :: string
  res_suggestions :: "string list"

datatype response = Failure string nat | Review review_result

text \<open>
  The em dash of the two fixed texts lies outside the modelled character range; it
  is written as the three bytes of its UTF-8 form. No operation reads these texts.
\<close>

definition em_dash :: string where
  "em_dash = [CHR 0xE2, CHR 0x80, CHR 0x94]"

definition non_python_result :: review_result where
  "non_python_result =
     \<lparr>res_summary =
        ''Non-Python file '' @ em_dash @ '' analysis is only enabled for .py in this MVP.'',
      res_issues = [],
      res_scores = \<lparr>readability = 0, complexity = 0, security = 0, testing = 0\<rparr>,
      res_output = ''(not run '' @ em_dash @ '' non-Python file)'',
      res_suggestions = [''Paste a .py file to get full analysis.'']\<rparr>"

definition bandit_issue :: "sec_finding \<Rightarrow> issue" where
  "bandit_issue f =
     \<lparr>type = get_default (test_id f) ''BANDIT'',
      detail = get_default (issue_text f) ''Potential security issue'',
      line = line_number f\<rparr>"

text \<open>
  The body of the \<open>try\<close> in \<open>review\<close>: the analysis of a Python source at a path.
  The \<open>try\<close> has a \<open>finally\<close> and no \<open>except\<close>: an exception of a step leaves
  the handler.
\<close>

definition analyse :: "env \<Rightarrow> string \<Rightarrow> string \<Rightarrow> exn + response" where
  "analyse e src path =
     (case syntax_check e src of
        Inl x \<Rightarrow> Inl x
      | Inr syn_err \<Rightarrow>
          (let issues0 = (case syn_err of None \<Rightarrow> [] | Some i \<Rightarrow> [i])
           in case run_ruff e path of
                Inl x \<Rightarrow> Inl x
              | Inr lint \<Rightarrow>
                  (let m = run_radon_metrics e path
                   in case run_bandit e path of
                        Inl x \<Rightarrow> Inl x
                      | Inr sec_findings \<Rightarrow>
                          (let issues = issues0 @ lint @ map bandit_issue sec_findings;
                               sc = score_from m issues sec_findings src;
                               sg = build_suggestions m issues sec_findings src;
                               lint_count =
                                 length
                                   (filter
                                      (\<lambda>i. \<not> startswith (or_else (type i) []) ''SYNTAX'')
                                      issues);
                               sm = pretty_summary m lint_count (length sec_findings)
                           in case run_code_output e src of
                                Inl x \<Rightarrow> Inl x
                              | Inr out \<Rightarrow>
                                  Inr (Review \<lparr>res_summary = sm, res_issues = issues,
                                               res_scores = sc, res_output = out,
                                               res_suggestions = sg\<rparr>)))))"

definition review :: "env \<Rightarrow> request \<Rightarrow> exn + response" where
  "review e req =
     (let src = strip (or_else (req_code req) []);
          filename = strip (or_else (req_filename req) ''snippet.py'')
      in if src = [] then Inr (Failure ''No code provided.'' 400)
         else if \<not> endswith (lower filename) ''.py'' then Inr (Review non_python_result)
         else
           (case mktemp e src of
              Inl x \<Rightarrow> Inl x
            | Inr path \<Rightarrow> analyse e src path))"

section \<open>Two example environments\<close>

text \<open>
  A machine on which no program is installed: every \<open>subprocess.run\<close> raises
  \<open>FileNotFoundError\<close>. The source parses and the temporary file can be written.
\<close>

definition env_no_tools :: env where
  "env_no_tools =
     \<lparr>compile = (\<lambda>src. Inr None),
      subprocess_run = (\<lambda>cmd timeout. Inl (FileNotFoundError ''[Errno 2] No such file or directory'')),
      mktemp = (\<lambda>src. Inr ''/tmp/tmpk3v9.py''),
      ruff_json = (\<lambda>doc. Inr []),
      radon_mi_json = (\<lambda>doc path. Inr MiOther),
      radon_cc_json = (\<lambda>doc path. Inr []),
      bandit_json = (\<lambda>doc. Inr (Some [])),
      truediv = (\<lambda>a b. of_int a / of_int b)\<rparr>"

text \<open>
  A machine on which every tool runs and finds nothing, radon reports a
  maintainability index of 100 and no function, and the submitted program prints
  \<open>1\<close>.
\<close>

definition env_clean :: env where
  "env_clean =
     \<lparr>compile = (\<lambda>src. Inr None),
      subprocess_run =
        (\<lambda>cmd timeout.
           if take 1 cmd = [''python''] then
             Inr \<lparr>returncode = 0, stdout = ''1'' @ [CHR 0x0A], stderr = []\<rparr>
           else if take 1 cmd = [''ruff''] then
             Inr \<lparr>returncode = 0, stdout = ''[]'', stderr = []\<rparr>
           else Inr \<lparr>returncode = 0, stdout = ''{}'', stderr = []\<rparr>),
      mktemp = (\<lambda>src. Inr ''/tmp/tmpk3v9.py''),
      ruff_json = (\<lambda>doc. Inr []),
      radon_mi_json = (\<lambda>doc path. Inr (MiDict (Some 100))),
      radon_cc_json = (\<lambda>doc path. Inr []),
      bandit_json = (\<lambda>doc. Inr (Some [])),
      truediv = (\<lambda>a b. of_int a / of_int b)\<rparr>"

section \<open>Properties of the score derivation\<close>

text \<open>
  C1. Whenever the issues list holds an issue of type \<open>SYNTAX_ERROR\<close>, the scores are
  readability 0, complexity 0, testing 0, and security 30 when there is a security
  finding and 0 when there is none, whatever the metrics and the source text are.
\<close>

theorem syntax_error_collapses_scores:
  assumes "i \<in> set issues" and "type i = Some ''SYNTAX_ERROR''"
  shows "score_from m issues sec_findings code =
           \<lparr>readability = 0, complexity = 0,
            security = (if sec_findings \<noteq> [] then 30 else 0), testing = 0\<rparr>"
proof -
  from assms have "has_syntax_error issues"
    by (auto simp: has_syntax_error_def list_ex_iff)
  then show ?thesis
    by (simp add: score_from_def)
qed

theorem syntax_error_collapses_scores_witness:
  "\<lparr>type = Some ''SYNTAX_ERROR'', detail = Some ''invalid syntax'', line = Some 1\<rparr>
     \<in> set [\<lparr>type = Some ''SYNTAX_ERROR'', detail = Some ''invalid syntax'', line = Some 1\<rparr>]
   \<and> type \<lparr>type = Some ''SYNTAX_ERROR'', detail = Some ''invalid syntax'', line = Some 1\<rparr>
       = Some ''SYNTAX_ERROR''
   \<and> score_from \<lparr>mi = Some 80, avg_cc = Some 2, max_cc = Some 4\<rparr>
         [\<lparr>type = Some ''SYNTAX_ERROR'', detail = Some ''invalid syntax'', line = Some 1\<rparr>]
         [\<lparr>test_id = Val ''B102'', issue_text = Val ''exec used'', line_number = Some 1,
           issue_severity = Some ''MEDIUM''\<rparr>]
         (''def f(:'' @ [CHR 0x0A] @ ''  pass'')
       = \<lparr>readability = 0, complexity = 0, security = 30, testing = 0\<rparr>"
  using syntax_error_collapses_scores
    [of "\<lparr>type = Some ''SYNTAX_ERROR'', detail = Some ''invalid syntax'', line = Some 1\<rparr>"
        "[\<lparr>type = Some ''SYNTAX_ERROR'', detail = Some ''invalid syntax'', line = Some 1\<rparr>]"
        "\<lparr>mi = Some 80, avg_cc = Some 2, max_cc = Some 4\<rparr>"
        "[\<lparr>test_id = Val ''B102'', issue_text = Val ''exec used'', line_number = Some 1,
           issue_severity = Some ''MEDIUM''\<rparr>]"
        "''def f(:'' @ [CHR 0x0A] @ ''  pass''"]
  by simp

lemma penalty_loop_sum: "penalty_loop acc fs = acc + sum_list (map severity_penalty fs)"
  by (induction fs arbitrary: acc) simp_all

lemma severity_penalty_pos: "0 \<le> sum_list (map severity_penalty fs)"
  by (induction fs) (simp_all add: severity_penalty_def Let_def)

text \<open>
  C2. Without a syntax error, the security score is 95 minus the sum of the penalties
  of the findings, clamped to the range 0 to 95: it is 95 when there is no finding,
  never above 95 and never below 0. The penalty of a finding is 20 when its severity
  label is \<open>HIGH\<close>, 10 when it is \<open>MEDIUM\<close> and 5 for every other label, such
  as \<open>LOW\<close>; the label is read in upper case, as the code compares it.
\<close>

theorem security_score_formula:
  assumes "\<not> has_syntax_error issues"
  shows "security (score_from m issues fs src)
           = max 0 (min 95 (95 - sum_list (map severity_penalty fs)))
       \<and> 0 \<le> security (score_from m issues fs src)
       \<and> security (score_from m issues fs src) \<le> 95
       \<and> (fs = [] \<longrightarrow> security (score_from m issues fs src) = 95)
       \<and> (\<forall>f. upper (or_else (issue_severity f) []) = ''HIGH'' \<longrightarrow> severity_penalty f = 20)
       \<and> (\<forall>f. upper (or_else (issue_severity f) []) = ''MEDIUM'' \<longrightarrow> severity_penalty f = 10)
       \<and> (\<forall>f. upper (or_else (issue_severity f) []) \<noteq> ''HIGH''
              \<and> upper (or_else (issue_severity f) []) \<noteq> ''MEDIUM'' \<longrightarrow> severity_penalty f = 5)
       \<and> (\<forall>f. issue_severity f = Some ''HIGH'' \<longrightarrow> severity_penalty f = 20)
       \<and> (\<forall>f. issue_severity f = Some ''MEDIUM'' \<longrightarrow> severity_penalty f = 10)
       \<and> (\<forall>f. issue_severity f = Some ''LOW'' \<longrightarrow> severity_penalty f = 5)"
proof -
  have eq: "security (score_from m issues fs src)
              = max 0 (min 95 (95 - sum_list (map severity_penalty fs)))"
    using assms by (simp add: score_from_def Let_def clamp_def penalty_loop_sum)
  have nn: "0 \<le> sum_list (map severity_penalty fs)"
    by (rule severity_penalty_pos)
  have labels: "upper (or_else (Some ''HIGH'') []) = ''HIGH''"
    "upper (or_else (Some ''MEDIUM'') []) = ''MEDIUM''"
    "upper (or_else (Some ''LOW'') []) = ''LOW''"
    by (simp_all add: upper_def upper_char_def or_else_def)
  show ?thesis
    unfolding eq using nn by (auto simp: severity_penalty_def Let_def labels)
qed

theorem security_score_formula_witness:
  "\<not> has_syntax_error []
   \<and> security (score_from \<lparr>mi = Some 80, avg_cc = Some 2, max_cc = Some 4\<rparr> []
         [\<lparr>test_id = Val ''B602'', issue_text = Val ''shell'', line_number = Some 3,
           issue_severity = Some ''HIGH''\<rparr>,
          \<lparr>test_id = Val ''B102'', issue_text = Val ''exec'', line_number = Some 5,
           issue_severity = Some ''MEDIUM''\<rparr>,
          \<lparr>test_id = Val ''B101'', issue_text = Val ''assert'', line_number = None,
           issue_severity = Some ''LOW''\<rparr>]
         ''print(1)'') = 60
   \<and> security (score_from \<lparr>mi = None, avg_cc = None, max_cc = None\<rparr> []
         (replicate 5 \<lparr>test_id = Val ''B602'', issue_text = Val ''shell'', line_number = Some 3,
           issue_severity = Some ''HIGH''\<rparr>)
         ''print(1)'') = 0"
proof -
  have h: "\<not> has_syntax_error []"
    by (simp add: has_syntax_error_def)
  have u: "upper ''HIGH'' = ''HIGH''" "upper ''MEDIUM'' = ''MEDIUM''" "upper ''LOW'' = ''LOW''"
    by (simp_all add: upper_def upper_char_def)
  show ?thesis
    using h
      security_score_formula [OF h,
        where m = "\<lparr>mi = Some 80, avg_cc = Some 2, max_cc = Some 4\<rparr>"
          and src = "''print(1)''"
          and fs = "[\<lparr>test_id = Val ''B602'', issue_text = Val ''shell'', line_number = Some 3,
           issue_severity = Some ''HIGH''\<rparr>,
          \<lparr>test_id = Val ''B102'', issue_text = Val ''exec'', line_number = Some 5,
           issue_severity = Some ''MEDIUM''\<rparr>,
          \<lparr>test_id = Val ''B101'', issue_text = Val ''assert'', line_number = None,
           issue_severity = Some ''LOW''\<rparr>]", THEN conjunct1]
      security_score_formula [OF h,
        where m = "\<lparr>mi = None, avg_cc = None, max_cc = None\<rparr>"
          and src = "''print(1)''"
          and fs = "replicate 5 \<lparr>test_id = Val ''B602'', issue_text = Val ''shell'',
            line_number = Some 3, issue_severity = Some ''HIGH''\<rparr>", THEN conjunct1]
    by (simp add: severity_penalty_def or_else_def u Let_def numeral_eq_Suc)
qed

text \<open>
  C3. Without a syntax error, the complexity score is a step function of the average
  complexity \<open>a\<close>: 95 up to 1, 85 above 1 and up to 3, 70 above 3 and up to 6, 55
  above 6 and up to 10, 35 above 10, each upper edge included; it is 0 when the
  average is unavailable.
\<close>

theorem complexity_score_steps:
  assumes "\<not> has_syntax_error issues"
  shows "(avg_cc m = None \<longrightarrow> complexity (score_from m issues fs src) = 0)
       \<and> (avg_cc m = Some a \<longrightarrow>
              (a \<le> 1 \<longrightarrow> complexity (score_from m issues fs src) = 95)
            \<and> (1 < a \<and> a \<le> 3 \<longrightarrow> complexity (score_from m issues fs src) = 85)
            \<and> (3 < a \<and> a \<le> 6 \<longrightarrow> complexity (score_from m issues fs src) = 70)
            \<and> (6 < a \<and> a \<le> 10 \<longrightarrow> complexity (score_from m issues fs src) = 55)
            \<and> (10 < a \<longrightarrow> complexity (score_from m issues fs src) = 35))"
  using assms by (simp add: score_from_def Let_def complexity_score_def)

theorem complexity_score_steps_witness:
  "\<not> has_syntax_error []
   \<and> complexity (score_from \<lparr>mi = Some 80, avg_cc = Some 3, max_cc = Some 4\<rparr> [] []
         ''print(1)'') = 85
   \<and> complexity (score_from \<lparr>mi = Some 80, avg_cc = Some (301 / 100), max_cc = Some 4\<rparr> [] []
         ''print(1)'') = 70
   \<and> complexity (score_from \<lparr>mi = Some 80, avg_cc = None, max_cc = None\<rparr> [] []
         ''print(1)'') = 0"
proof -
  have h: "\<not> has_syntax_error []"
    by (simp add: has_syntax_error_def)
  show ?thesis
    using h
      complexity_score_steps [OF h,
        where m = "\<lparr>mi = Some 80, avg_cc = Some 3, max_cc = Some 4\<rparr>"
          and fs = "[]" and src = "''print(1)''" and a = 3]
      complexity_score_steps [OF h,
        where m = "\<lparr>mi = Some 80, avg_cc = Some (301 / 100), max_cc = Some 4\<rparr>"
          and fs = "[]" and src = "''print(1)''" and a = "301 / 100"]
      complexity_score_steps [OF h,
        where m = "\<lparr>mi = Some 80, avg_cc = None, max_cc = None\<rparr>"
          and fs = "[]" and src = "''print(1)''"]
    by simp
qed

section \<open>The testing heuristic\<close>

lemma search_from_here: "rx_run r (p, s) \<noteq> [] \<Longrightarrow> search_from r p s"
  by (cases s) simp_all

lemma search_from_append:
  "rx_run r (if pre = [] then p else Some (last pre), s) \<noteq> [] \<Longrightarrow> search_from r p (pre @ s)"
proof (induction pre arbitrary: p)
  case Nil
  then show ?case by (simp add: search_from_here)
next
  case (Cons x xs)
  from Cons.prems have "rx_run r (if xs = [] then Some x else Some (last xs), s) \<noteq> []"
    by (simp split: if_splits)
  then have "search_from r (Some x) (xs @ s)"
    by (rule Cons.IH)
  then show ?case by simp
qed

lemma is_word_letters:
  "is_word (CHR ''i'')" "is_word (CHR ''t'')" "\<not> is_space (CHR ''p'')" "is_space (CHR '' '')"
  by (simp_all add: is_word_def is_space_def)

lemma import_pytest_matches:
  assumes "\<not> word_opt q" and "\<not> word_opt (next_char post)"
  shows "rx_run rx_import (q, ''import pytest'' @ post) \<noteq> []"
  using assms
  by (simp add: rx_import_def at_boundary_def word_opt_def next_char_def is_word_letters)

lemma has_tests_import_pytest:
  assumes "src = pre @ ''import pytest'' @ post"
    and "pre = [] \<or> \<not> is_word (last pre)"
    and "post = [] \<or> \<not> is_word (hd post)"
  shows "has_tests src"
proof -
  have q: "\<not> word_opt (if pre = [] then None else Some (last pre))"
    using assms(2) by (auto simp: word_opt_def)
  have n: "\<not> word_opt (next_char post)"
    using assms(3) by (cases post) (simp_all add: word_opt_def next_char_def)
  have "rx_run rx_import (if pre = [] then None else Some (last pre), ''import pytest'' @ post) \<noteq> []"
    using q n by (rule import_pytest_matches)
  then have "search_from rx_import None (pre @ ''import pytest'' @ post)"
    by (rule search_from_append)
  then show ?thesis
    by (simp add: has_tests_def re_search_def assms(1))
qed


text \<open>
  C4, as amended. When the source holds \<open>import pytest\<close> as whole words (no word
  character right before \<open>import\<close> and none right after \<open>pytest\<close>), the testing
  score is 80 if no issue has type \<open>SYNTAX_ERROR\<close> and 0 if one has. The claim as
  written, 80 for every source with the substring \<open>import pytest\<close>, fails in two
  ways: a syntax error sets the score to 0, and \<open>import pytest_asyncio\<close> does not
  match the pattern, which gives 20.
\<close>

theorem testing_score_import_pytest:
  assumes "src = pre @ ''import pytest'' @ post"
    and "pre = [] \<or> \<not> is_word (last pre)"
    and "post = [] \<or> \<not> is_word (hd post)"
  shows "testing (score_from m issues fs src) = (if has_syntax_error issues then 0 else 80)"
proof -
  have "has_tests src"
    using assms by (rule has_tests_import_pytest)
  then show ?thesis
    by (simp add: score_from_def Let_def)
qed

theorem testing_score_import_pytest_witness:
  "''import os'' @ [CHR 0x0A] @ ''import pytest'' @ [CHR 0x0A] @ ''def f(): pass''
     = (''import os'' @ [CHR 0x0A]) @ ''import pytest'' @ ([CHR 0x0A] @ ''def f(): pass'')
   \<and> \<not> is_word (last (''import os'' @ [CHR 0x0A]))
   \<and> \<not> is_word (hd ([CHR 0x0A] @ ''def f(): pass''))
   \<and> \<not> has_syntax_error []
   \<and> testing (score_from \<lparr>mi = Some 80, avg_cc = Some 1, max_cc = Some 1\<rparr> [] []
         (''import os'' @ [CHR 0x0A] @ ''import pytest'' @ [CHR 0x0A] @ ''def f(): pass'')) = 80"
  using testing_score_import_pytest
    [of "''import os'' @ [CHR 0x0A] @ ''import pytest'' @ [CHR 0x0A] @ ''def f(): pass''"
        "''import os'' @ [CHR 0x0A]" "[CHR 0x0A] @ ''def f(): pass''"
        "\<lparr>mi = Some 80, avg_cc = Some 1, max_cc = Some 1\<rparr>" "[]" "[]"]
  by (simp add: is_word_def has_syntax_error_def)

theorem testing_score_import_pytest_counterexample:
  "sublist ''import pytest'' (''import pytest'' @ [CHR 0x0A] @ ''def f(:'')
   \<and> testing (score_from \<lparr>mi = None, avg_cc = None, max_cc = None\<rparr>
         [\<lparr>type = Some ''SYNTAX_ERROR'', detail = Some ''invalid syntax'', line = Some 2\<rparr>] []
         (''import pytest'' @ [CHR 0x0A] @ ''def f(:'')) = 0
   \<and> sublist ''import pytest'' ''import pytest_asyncio''
   \<and> testing (score_from \<lparr>mi = Some 100, avg_cc = Some 0, max_cc = Some 0\<rparr> [] []
         ''import pytest_asyncio'') = 20"
proof -
  have a: "sublist ''import pytest'' (''import pytest'' @ [CHR 0x0A] @ ''def f(:'')"
    by (rule prefix_imp_sublist) simp
  have b: "testing (score_from \<lparr>mi = None, avg_cc = None, max_cc = None\<rparr>
         [\<lparr>type = Some ''SYNTAX_ERROR'', detail = Some ''invalid syntax'', line = Some 2\<rparr>] []
         (''import pytest'' @ [CHR 0x0A] @ ''def f(:'')) = 0"
    by (simp add: score_from_def has_syntax_error_def)
  have c: "sublist ''import pytest'' ''import pytest_asyncio''"
    by (rule prefix_imp_sublist) simp
  have "\<not> has_tests ''import pytest_asyncio''"
    by code_simp
  then have d: "testing (score_from \<lparr>mi = Some 100, avg_cc = Some 0, max_cc = Some 0\<rparr> [] []
         ''import pytest_asyncio'') = 20"
    by (simp add: score_from_def has_syntax_error_def Let_def)
  from a b c d show ?thesis by blast
qed

section \<open>Properties of the suggestion builder\<close>

lemma subseq_set_mono: "subseq xs ys \<Longrightarrow> set xs \<subseteq> set ys"
  by (induction rule: list_emb.induct) auto

lemma subseq_keeps_distinct: "subseq xs ys \<Longrightarrow> distinct ys \<Longrightarrow> distinct xs"
  by (induction rule: list_emb.induct) (auto dest: subseq_set_mono)

lemma subseq_optional_head:
  "subseq ys zs \<Longrightarrow> subseq ((if c then [x] else []) @ ys) (x # zs)"
  by auto

lemmas sugg_defs = sugg_syntax_def sugg_unused_def sugg_spacing_def sugg_long_lines_def
  sugg_bandit_def sugg_complexity_def sugg_maintainability_def sugg_high_def sugg_hardening_def
  sugg_tests_def sugg_fallback_def

lemma rule_texts_distinct:
  "distinct [sugg_syntax, sugg_unused, sugg_spacing, sugg_long_lines, sugg_bandit,
     sugg_complexity, sugg_maintainability, sugg_high n, sugg_tests]"
  "distinct [sugg_syntax, sugg_unused, sugg_spacing, sugg_long_lines, sugg_bandit,
     sugg_complexity, sugg_maintainability, sugg_hardening, sugg_tests]"
  by (simp_all add: sugg_defs)

lemma option_piece:
  "(case v of Some a \<Rightarrow> if P a then [x] else [] | None \<Rightarrow> [])
     = (if (case v of Some a \<Rightarrow> P a | None \<Rightarrow> False) then [x] else [])"
  by (simp split: option.splits)

lemma security_piece:
  "(if hi \<noteq> [] then [a] else if fs \<noteq> [] then [b] else [])
     = (if hi \<noteq> [] \<or> fs \<noteq> [] then [if hi \<noteq> [] then a else b] else [])"
  by simp


text \<open>
  C8. For every input the suggestion list is not empty and has no duplicate. It is
  either the fallback text alone, or a selection, in the order of the rules, from the
  nine rule texts, each rule giving at most one (the eighth rule gives the
  HIGH-severity text with its count, or else the hardening text). The fallback text is
  in the list exactly when no rule fires, and then it is the only element.
\<close>

theorem build_suggestions_shape:
  "build_suggestions m issues fs src \<noteq> []
   \<and> distinct (build_suggestions m issues fs src)
   \<and> (build_suggestions m issues fs src = [sugg_fallback]
        \<or> subseq (build_suggestions m issues fs src)
             [sugg_syntax, sugg_unused, sugg_spacing, sugg_long_lines, sugg_bandit,
              sugg_complexity, sugg_maintainability,
              (if high_findings fs \<noteq> [] then sugg_high (length (high_findings fs))
               else sugg_hardening),
              sugg_tests])
   \<and> ((sugg_fallback \<in> set (build_suggestions m issues fs src))
        = (\<not> has_syntax_error issues \<and> ''F401'' \<notin> codes_of issues
           \<and> ''E302'' \<notin> codes_of issues \<and> ''E305'' \<notin> codes_of issues
           \<and> ''E501'' \<notin> codes_of issues
           \<and> \<not> (\<exists>c \<in> codes_of issues. startswith c ''B'')
           \<and> (case avg_cc m of Some a \<Rightarrow> a \<le> 6 | None \<Rightarrow> True)
           \<and> (case mi m of Some v \<Rightarrow> 60 \<le> v | None \<Rightarrow> True)
           \<and> fs = [] \<and> has_tests src))
   \<and> ((build_suggestions m issues fs src = [sugg_fallback])
        = (sugg_fallback \<in> set (build_suggestions m issues fs src)))"
proof -
  define t8 where "t8 = (if high_findings fs \<noteq> [] then sugg_high (length (high_findings fs))
               else sugg_hardening)"
  define full where "full = [sugg_syntax, sugg_unused, sugg_spacing, sugg_long_lines, sugg_bandit,
              sugg_complexity, sugg_maintainability, t8, sugg_tests]"
  define sugg where "sugg =
            (if has_syntax_error issues then [sugg_syntax] else [])
            @ (if ''F401'' \<in> codes_of issues then [sugg_unused] else [])
            @ (if ''E302'' \<in> codes_of issues \<or> ''E305'' \<in> codes_of issues then [sugg_spacing] else [])
            @ (if ''E501'' \<in> codes_of issues then [sugg_long_lines] else [])
            @ (if (\<exists>c \<in> codes_of issues. startswith c ''B'') then [sugg_bandit] else [])
            @ (case avg_cc m of Some a \<Rightarrow> if 6 < a then [sugg_complexity] else [] | None \<Rightarrow> [])
            @ (case mi m of Some v \<Rightarrow> if v < 60 then [sugg_maintainability] else [] | None \<Rightarrow> [])
            @ (if high_findings fs \<noteq> [] then [sugg_high (length (high_findings fs))]
               else if fs \<noteq> [] then [sugg_hardening] else [])
            @ (if \<not> has_tests src then [sugg_tests] else [])"
  have R: "build_suggestions m issues fs src = (if sugg = [] then [sugg_fallback] else sugg)"
    by (simp add: build_suggestions_def sugg_def Let_def)
  have sub: "subseq sugg full"
    unfolding sugg_def full_def option_piece security_piece t8_def
    by (intro subseq_optional_head) simp
  have dist_full: "distinct full"
    using rule_texts_distinct by (simp add: full_def t8_def)
  have dist: "distinct sugg"
    using sub dist_full by (rule subseq_keeps_distinct)
  have "sugg_fallback \<notin> set full"
    by (simp add: full_def t8_def sugg_defs)
  then have nofb: "sugg_fallback \<notin> set sugg"
    using subseq_set_mono [OF sub] by blast
  have empty: "(sugg = []) =
          (\<not> has_syntax_error issues \<and> ''F401'' \<notin> codes_of issues
           \<and> ''E302'' \<notin> codes_of issues \<and> ''E305'' \<notin> codes_of issues
           \<and> ''E501'' \<notin> codes_of issues
           \<and> \<not> (\<exists>c \<in> codes_of issues. startswith c ''B'')
           \<and> (case avg_cc m of Some a \<Rightarrow> a \<le> 6 | None \<Rightarrow> True)
           \<and> (case mi m of Some v \<Rightarrow> 60 \<le> v | None \<Rightarrow> True)
           \<and> fs = [] \<and> has_tests src)"
    unfolding sugg_def
    by (auto simp: high_findings_def split: option.splits)
  have c1: "build_suggestions m issues fs src \<noteq> []"
    unfolding R by simp
  have c2: "distinct (build_suggestions m issues fs src)"
    unfolding R using dist by simp
  have c3: "build_suggestions m issues fs src = [sugg_fallback]
        \<or> subseq (build_suggestions m issues fs src) full"
    unfolding R using sub by simp
  have c4: "(sugg_fallback \<in> set (build_suggestions m issues fs src)) = (sugg = [])"
    unfolding R using nofb by simp
  have c5: "(build_suggestions m issues fs src = [sugg_fallback])
        = (sugg_fallback \<in> set (build_suggestions m issues fs src))"
    unfolding R using nofb by auto
  from c1 c2 c3 [unfolded full_def t8_def] c4 [unfolded empty] c5 show ?thesis
    by blast
qed

theorem build_suggestions_shape_witness:
  "build_suggestions \<lparr>mi = Some 80, avg_cc = Some 2, max_cc = Some 4\<rparr> [] [] ''import pytest''
     = [sugg_fallback]
   \<and> build_suggestions \<lparr>mi = Some 50, avg_cc = Some 7, max_cc = Some 12\<rparr>
         [\<lparr>type = Some ''F401'', detail = Some ''unused import'', line = Some 1\<rparr>,
          \<lparr>type = Some ''B602'', detail = Some ''shell'', line = Some 3\<rparr>]
         [\<lparr>test_id = Val ''B602'', issue_text = Val ''shell'', line_number = Some 3,
           issue_severity = Some ''HIGH''\<rparr>]
         ''print(1)''
     = [sugg_unused, sugg_bandit, sugg_complexity, sugg_maintainability, sugg_high 1, sugg_tests]"
proof -
  have t: "has_tests ''import pytest''"
    by code_simp
  have a: "build_suggestions \<lparr>mi = Some 80, avg_cc = Some 2, max_cc = Some 4\<rparr> [] []
             ''import pytest'' = [sugg_fallback]"
    using t build_suggestions_shape
      [of "\<lparr>mi = Some 80, avg_cc = Some 2, max_cc = Some 4\<rparr>" "[]" "[]" "''import pytest''"]
    by (simp add: has_syntax_error_def codes_of_def)
  have b: "build_suggestions \<lparr>mi = Some 50, avg_cc = Some 7, max_cc = Some 12\<rparr>
         [\<lparr>type = Some ''F401'', detail = Some ''unused import'', line = Some 1\<rparr>,
          \<lparr>type = Some ''B602'', detail = Some ''shell'', line = Some 3\<rparr>]
         [\<lparr>test_id = Val ''B602'', issue_text = Val ''shell'', line_number = Some 3,
           issue_severity = Some ''HIGH''\<rparr>]
         ''print(1)''
     = [sugg_unused, sugg_bandit, sugg_complexity, sugg_maintainability, sugg_high 1, sugg_tests]"
    by code_simp
  from a b show ?thesis by simp
qed

section \<open>Properties of the summary line\<close>

lemma digit_char_digit: "d < 10 \<Longrightarrow> digit_char d \<in> set ''0123456789''"
  unfolding digit_char_def by (rule nth_mem) simp

lemma str_nat_digits: "set (str_nat n) \<subseteq> set ''0123456789''"
proof (induction n rule: str_nat.induct)
  case (1 n)
  show ?case
  proof (cases "n < 10")
    case True
    then show ?thesis
      using digit_char_digit [of n] by (subst str_nat.simps) simp
  next
    case False
    have "digit_char (n mod 10) \<in> set ''0123456789''"
      by (rule digit_char_digit) simp
    with False 1 show ?thesis
      by (subst str_nat.simps) simp
  qed
qed

lemma str_nat_no_newline: "CHR 0x0A \<notin> set (str_nat n)"
  using str_nat_digits [of n] by auto

lemma digit_char_no_newline: "CHR 0x0A \<noteq> digit_char (k mod 10)"
  using digit_char_digit [of "k mod 10"] by auto

lemma fmt_fixed_0: "fmt_fixed 0 x = spec_integer_text x"
  by (simp add: fmt_fixed_def spec_integer_text_def)

lemma fmt_fixed_1: "fmt_fixed (Suc 0) x = spec_one_decimal_text x"
proof -
  have "str_nat (k mod 10) = [digit_char (k mod 10)]" for k
    by (subst str_nat.simps) simp
  then show ?thesis
    by (simp add: fmt_fixed_def spec_one_decimal_text_def Let_def)
qed

lemma py_round_nearest: "abs (of_int (py_round x) - x) \<le> 1 / 2"
proof -
  have "of_int (floor x) \<le> x" "x < of_int (floor x) + 1"
    by linarith+
  then show ?thesis
    by (auto simp: py_round_def Let_def abs_le_iff)
qed

lemma spec_integer_text_no_newline: "CHR 0x0A \<notin> set (spec_integer_text x)"
  by (simp add: spec_integer_text_def str_nat_no_newline)

lemma spec_one_decimal_text_no_newline: "CHR 0x0A \<notin> set (spec_one_decimal_text x)"
  by (simp add: spec_one_decimal_text_def Let_def str_nat_no_newline digit_char_no_newline)

lemma spec_or_na_no_newline:
  assumes "\<And>x. CHR 0x0A \<notin> set (render x)"
  shows "CHR 0x0A \<notin> set (spec_or_na render v)"
  using assms by (cases v) (simp_all add: spec_or_na_def)

lemma cx_label_no_newline: "CHR 0x0A \<notin> set (cx_label v)"
  by (cases v) (simp_all add: cx_label_def)


text \<open>
  C6. For every metrics value and every pair of counts, the summary is one line (it
  holds no line break) made of these parts in this order and with this punctuation:
  the maintainability index as an integer, the average complexity to one decimal
  with its label in parentheses, the maximum complexity to one decimal, the lint
  count and the security count; each number is \<open>n/a\<close> when it is unavailable. The
  label is \<open>trivial\<close> at exactly 0, \<open>low\<close> up to 3, \<open>moderate\<close> up to 6,
  \<open>high\<close> up to 10 and \<open>very high\<close> above, and \<open>n/a\<close> when the average is
  unavailable. The integer that \<open>round\<close> gives is a nearest one.
\<close>

theorem pretty_summary_line:
  "pretty_summary m lint_count sec_count =
      ''Maintainability Index: '' @ spec_or_na spec_integer_text (mi m)
      @ '' | Complexity: avg '' @ spec_or_na spec_one_decimal_text (avg_cc m)
      @ '' ('' @ cx_label (avg_cc m) @ ''), max '' @ spec_or_na spec_one_decimal_text (max_cc m)
      @ '' | Ruff: '' @ str_nat lint_count @ '' issues | Bandit: '' @ str_nat sec_count
      @ '' findings''
   \<and> CHR 0x0A \<notin> set (pretty_summary m lint_count sec_count)
   \<and> (avg_cc m = None \<longrightarrow> cx_label (avg_cc m) = ''n/a'')
   \<and> (avg_cc m = Some a \<longrightarrow>
          (a = 0 \<longrightarrow> cx_label (avg_cc m) = ''trivial'')
        \<and> (a \<noteq> 0 \<and> a \<le> 3 \<longrightarrow> cx_label (avg_cc m) = ''low'')
        \<and> (3 < a \<and> a \<le> 6 \<longrightarrow> cx_label (avg_cc m) = ''moderate'')
        \<and> (6 < a \<and> a \<le> 10 \<longrightarrow> cx_label (avg_cc m) = ''high'')
        \<and> (10 < a \<longrightarrow> cx_label (avg_cc m) = ''very high''))
   \<and> abs (of_int (py_round x) - x) \<le> 1 / 2"
proof -
  have eq: "pretty_summary m lint_count sec_count =
      ''Maintainability Index: '' @ spec_or_na spec_integer_text (mi m)
      @ '' | Complexity: avg '' @ spec_or_na spec_one_decimal_text (avg_cc m)
      @ '' ('' @ cx_label (avg_cc m) @ ''), max '' @ spec_or_na spec_one_decimal_text (max_cc m)
      @ '' | Ruff: '' @ str_nat lint_count @ '' issues | Bandit: '' @ str_nat sec_count
      @ '' findings''"
    by (simp add: pretty_summary_def spec_or_na_def fmt_fixed_0 fmt_fixed_1
        split: option.splits)
  have line: "CHR 0x0A \<notin> set (pretty_summary m lint_count sec_count)"
    unfolding eq
    by (simp add: str_nat_no_newline cx_label_no_newline
        spec_or_na_no_newline [OF spec_integer_text_no_newline]
        spec_or_na_no_newline [OF spec_one_decimal_text_no_newline])
  have label: "(avg_cc m = None \<longrightarrow> cx_label (avg_cc m) = ''n/a'')
   \<and> (avg_cc m = Some a \<longrightarrow>
          (a = 0 \<longrightarrow> cx_label (avg_cc m) = ''trivial'')
        \<and> (a \<noteq> 0 \<and> a \<le> 3 \<longrightarrow> cx_label (avg_cc m) = ''low'')
        \<and> (3 < a \<and> a \<le> 6 \<longrightarrow> cx_label (avg_cc m) = ''moderate'')
        \<and> (6 < a \<and> a \<le> 10 \<longrightarrow> cx_label (avg_cc m) = ''high'')
        \<and> (10 < a \<longrightarrow> cx_label (avg_cc m) = ''very high''))"
    by (simp add: cx_label_def)
  from eq line label py_round_nearest [of x] show ?thesis
    by blast
qed

theorem pretty_summary_line_witness:
  "avg_cc \<lparr>mi = Some (8765 / 100), avg_cc = Some (7 / 3), max_cc = Some 4\<rparr> = Some (7 / 3)
   \<and> pretty_summary \<lparr>mi = Some (8765 / 100), avg_cc = Some (7 / 3), max_cc = Some 4\<rparr> 3 12
     = ''Maintainability Index: 88 | Complexity: avg 2.3 (low), max 4.0 | Ruff: 3 issues | Bandit: 12 findings''
   \<and> pretty_summary \<lparr>mi = None, avg_cc = None, max_cc = None\<rparr> 0 0
     = ''Maintainability Index: n/a | Complexity: avg n/a (n/a), max n/a | Ruff: 0 issues | Bandit: 0 findings''"
proof -
  have a: "''Maintainability Index: '' @ spec_or_na spec_integer_text (Some (8765 / 100))
      @ '' | Complexity: avg '' @ spec_or_na spec_one_decimal_text (Some (7 / 3))
      @ '' ('' @ cx_label (Some (7 / 3)) @ ''), max '' @ spec_or_na spec_one_decimal_text (Some 4)
      @ '' | Ruff: '' @ str_nat 3 @ '' issues | Bandit: '' @ str_nat 12 @ '' findings''
    = ''Maintainability Index: 88 | Complexity: avg 2.3 (low), max 4.0 | Ruff: 3 issues | Bandit: 12 findings''"
    by code_simp
  have b: "''Maintainability Index: '' @ spec_or_na spec_integer_text None
      @ '' | Complexity: avg '' @ spec_or_na spec_one_decimal_text None
      @ '' ('' @ cx_label None @ ''), max '' @ spec_or_na spec_one_decimal_text None
      @ '' | Ruff: '' @ str_nat 0 @ '' issues | Bandit: '' @ str_nat 0 @ '' findings''
    = ''Maintainability Index: n/a | Complexity: avg n/a (n/a), max n/a | Ruff: 0 issues | Bandit: 0 findings''"
    by code_simp
  show ?thesis
    using a b
      pretty_summary_line
        [of "\<lparr>mi = Some (8765 / 100), avg_cc = Some (7 / 3), max_cc = Some 4\<rparr>" 3 12 "7 / 3" 0,
         THEN conjunct1]
      pretty_summary_line
        [of "\<lparr>mi = None, avg_cc = None, max_cc = None\<rparr>" 0 0 0 0, THEN conjunct1]
    by simp
qed

section \<open>Properties of the execution sandbox\<close>

text \<open>
  C9. Once the source is in its temporary file, the sandbox returns a text whatever
  the process does. When the process completes, the text is the trimmed standard
  output, then the trimmed standard error prefixed \<open>ERR: \<close>, joined by a line
  break; a stream that is empty after trimming is left out, and the text is
  \<open>(no output)\<close> when both are. When starting or waiting for the process raises,
  the text is \<open>Runtime error: \<close> followed by the message of the exception. No
  exception of the process leaves the function.
\<close>

theorem run_code_output_cases:
  assumes "mktemp e src = Inr path"
  shows "(subprocess_run e [''python'', path] 5 = Inr out \<longrightarrow>
            run_code_output e src =
              Inr (if strip (stdout out) \<noteq> [] \<and> strip (stderr out) \<noteq> []
                     then strip (stdout out) @ [CHR 0x0A] @ ''ERR: '' @ strip (stderr out)
                   else if strip (stdout out) \<noteq> [] then strip (stdout out)
                   else if strip (stderr out) \<noteq> [] then ''ERR: '' @ strip (stderr out)
                   else ''(no output)''))
       \<and> (subprocess_run e [''python'', path] 5 = Inl x \<longrightarrow>
            run_code_output e src = Inr (''Runtime error: '' @ exn_str x))
       \<and> (\<exists>text. run_code_output e src = Inr text)"
  using assms
  by (cases "subprocess_run e [''python'', path] 5") (simp_all add: run_code_output_def Let_def)

theorem run_code_output_cases_witness:
  "mktemp env_clean ''print(1)'' = Inr ''/tmp/tmpk3v9.py''
   \<and> run_code_output env_clean ''print(1)'' = Inr ''1''
   \<and> run_code_output
         (env_clean\<lparr>subprocess_run := (\<lambda>cmd timeout.
            Inr \<lparr>returncode = 1, stdout = ''partial'' @ [CHR 0x0A],
                 stderr = ''boom'' @ [CHR 0x0A]\<rparr>)\<rparr>) ''print(1)''
       = Inr (''partial'' @ [CHR 0x0A] @ ''ERR: boom'')
   \<and> run_code_output env_no_tools ''print(1)''
       = Inr ''Runtime error: [Errno 2] No such file or directory''"
proof -
  have a: "run_code_output env_clean ''print(1)'' = Inr ''1''"
    using run_code_output_cases
      [of env_clean "''print(1)''" "''/tmp/tmpk3v9.py''"
          "\<lparr>returncode = 0, stdout = ''1'' @ [CHR 0x0A], stderr = []\<rparr>"]
    by (simp add: env_clean_def strip_def is_space_def)
  have b: "run_code_output
         (env_clean\<lparr>subprocess_run := (\<lambda>cmd timeout.
            Inr \<lparr>returncode = 1, stdout = ''partial'' @ [CHR 0x0A],
                 stderr = ''boom'' @ [CHR 0x0A]\<rparr>)\<rparr>) ''print(1)''
       = Inr (''partial'' @ [CHR 0x0A] @ ''ERR: boom'')"
    using run_code_output_cases
      [of "env_clean\<lparr>subprocess_run := (\<lambda>cmd timeout.
            Inr \<lparr>returncode = 1, stdout = ''partial'' @ [CHR 0x0A],
                 stderr = ''boom'' @ [CHR 0x0A]\<rparr>)\<rparr>"
          "''print(1)''" "''/tmp/tmpk3v9.py''"
          "\<lparr>returncode = 1, stdout = ''partial'' @ [CHR 0x0A], stderr = ''boom'' @ [CHR 0x0A]\<rparr>"]
    by (simp add: env_clean_def strip_def is_space_def)
  have c: "run_code_output env_no_tools ''print(1)''
       = Inr ''Runtime error: [Errno 2] No such file or directory''"
    using run_code_output_cases
      [of env_no_tools "''print(1)''" "''/tmp/tmpk3v9.py''" _
          "FileNotFoundError ''[Errno 2] No such file or directory''"]
    by (simp add: env_no_tools_def)
  from a b c show ?thesis
    by (simp add: env_clean_def)
qed

section \<open>Properties of the analyzer adapters\<close>

lemma run_ruff_missing:
  "run e [''ruff'', ''check'', path, ''--output-format'', ''json''] 20 = Inl (FileNotFoundError s)
   \<Longrightarrow> run_ruff e path =
         Inr [\<lparr>type = Some ''RUFF_MISSING'', detail = Some ''ruff not installed in venv'',
               line = None\<rparr>]"
  by (simp add: run_ruff_def)

lemma run_bandit_missing:
  "run e [''bandit'', ''-q'', ''-f'', ''json'', path] 30 = Inl (FileNotFoundError s)
   \<Longrightarrow> run_bandit e path = Inr []"
  by (simp add: run_bandit_def)

lemma run_radon_missing:
  "run e [''radon'', ''mi'', ''-j'', path] 20 = Inl (FileNotFoundError s)
   \<Longrightarrow> run e [''radon'', ''cc'', ''-s'', ''-j'', path] 20 = Inl (FileNotFoundError s')
   \<Longrightarrow> run_radon_metrics e path = \<lparr>mi = None, avg_cc = None, max_cc = None\<rparr>"
  by (simp add: run_radon_metrics_def radon_mi_def radon_cc_def)


text \<open>
  C5, as amended. When the ruff program is absent, the lint adapter returns the single
  issue \<open>RUFF_MISSING\<close>. When the bandit program is absent, the security adapter
  returns no finding, and when the radon program is absent, the metrics adapter
  returns metrics that are all unavailable: neither reports an issue. With all three
  absent, an analysis whose syntax check and sandbox return still gives a result,
  whose only issues are the syntax error, if there is one, and \<open>RUFF_MISSING\<close>;
  an exception of the syntax check, which no adapter causes, leaves the analysis. The
  claim as written, an issue of category \<open>*_MISSING\<close> from each of the three
  adapters, fails for bandit and radon.
\<close>

theorem absent_tool_adapters:
  "(run e [''ruff'', ''check'', path, ''--output-format'', ''json''] 20
      = Inl (FileNotFoundError s1) \<longrightarrow>
    run_ruff e path =
      Inr [\<lparr>type = Some ''RUFF_MISSING'', detail = Some ''ruff not installed in venv'',
            line = None\<rparr>])
   \<and> (run e [''bandit'', ''-q'', ''-f'', ''json'', path] 30 = Inl (FileNotFoundError s2) \<longrightarrow>
      run_bandit e path = Inr [])
   \<and> (run e [''radon'', ''mi'', ''-j'', path] 20 = Inl (FileNotFoundError s3)
      \<and> run e [''radon'', ''cc'', ''-s'', ''-j'', path] 20 = Inl (FileNotFoundError s4) \<longrightarrow>
      run_radon_metrics e path = \<lparr>mi = None, avg_cc = None, max_cc = None\<rparr>)
   \<and> (run e [''ruff'', ''check'', path, ''--output-format'', ''json''] 20
        = Inl (FileNotFoundError s1)
      \<and> run e [''bandit'', ''-q'', ''-f'', ''json'', path] 30 = Inl (FileNotFoundError s2)
      \<and> run e [''radon'', ''mi'', ''-j'', path] 20 = Inl (FileNotFoundError s3)
      \<and> run e [''radon'', ''cc'', ''-s'', ''-j'', path] 20 = Inl (FileNotFoundError s4)
      \<and> syntax_check e src = Inr syn_err
      \<and> run_code_output e src = Inr out \<longrightarrow>
      (\<exists>r. analyse e src path = Inr (Review r)
           \<and> res_issues r =
               (case syn_err of None \<Rightarrow> [] | Some i \<Rightarrow> [i])
               @ [\<lparr>type = Some ''RUFF_MISSING'', detail = Some ''ruff not installed in venv'',
                    line = None\<rparr>]))
   \<and> (syntax_check e src = Inl x \<longrightarrow> analyse e src path = Inl x)"
proof -
  have result: "\<exists>r. analyse e src path = Inr (Review r)
           \<and> res_issues r =
               (case syn_err of None \<Rightarrow> [] | Some i \<Rightarrow> [i])
               @ [\<lparr>type = Some ''RUFF_MISSING'', detail = Some ''ruff not installed in venv'',
                    line = None\<rparr>]"
    if "run e [''ruff'', ''check'', path, ''--output-format'', ''json''] 20
        = Inl (FileNotFoundError s1)"
      and "run e [''bandit'', ''-q'', ''-f'', ''json'', path] 30 = Inl (FileNotFoundError s2)"
      and "syntax_check e src = Inr syn_err"
      and "run_code_output e src = Inr out"
    using that
    by (simp add: analyse_def Let_def run_ruff_missing [of e path s1]
        run_bandit_missing [of e path s2])
  have raised: "syntax_check e src = Inl x \<longrightarrow> analyse e src path = Inl x"
    by (simp add: analyse_def)
  from result raised show ?thesis
    using run_ruff_missing [of e path s1] run_bandit_missing [of e path s2]
      run_radon_missing [of e path s3 s4]
    by blast
qed

theorem absent_tool_adapters_witness:
  "run env_no_tools [''ruff'', ''check'', ''/tmp/tmpk3v9.py'', ''--output-format'', ''json''] 20
     = Inl (FileNotFoundError ''[Errno 2] No such file or directory'')
   \<and> run_ruff env_no_tools ''/tmp/tmpk3v9.py'' =
      Inr [\<lparr>type = Some ''RUFF_MISSING'', detail = Some ''ruff not installed in venv'',
            line = None\<rparr>]
   \<and> syntax_check env_no_tools ''print(1)'' = Inr None
   \<and> run_code_output env_no_tools ''print(1)''
       = Inr ''Runtime error: [Errno 2] No such file or directory''
   \<and> (\<exists>r. analyse env_no_tools ''print(1)'' ''/tmp/tmpk3v9.py'' = Inr (Review r)
          \<and> res_issues r =
              [\<lparr>type = Some ''RUFF_MISSING'', detail = Some ''ruff not installed in venv'',
                line = None\<rparr>])
   \<and> syntax_check
         (env_no_tools\<lparr>compile := (\<lambda>src. Inl (OtherException ''RecursionError''))\<rparr>)
         ''print(1)'' = Inl (OtherException ''RecursionError'')
   \<and> analyse
         (env_no_tools\<lparr>compile := (\<lambda>src. Inl (OtherException ''RecursionError''))\<rparr>)
         ''print(1)'' ''/tmp/tmpk3v9.py'' = Inl (OtherException ''RecursionError'')"
proof -
  have r: "run env_no_tools cmd t
      = Inl (FileNotFoundError ''[Errno 2] No such file or directory'')" for cmd t
    by (simp add: run_def env_no_tools_def)
  have s: "syntax_check env_no_tools ''print(1)'' = Inr None"
    by (simp add: syntax_check_def env_no_tools_def)
  have o: "run_code_output env_no_tools ''print(1)''
       = Inr ''Runtime error: [Errno 2] No such file or directory''"
    by (simp add: run_code_output_def env_no_tools_def)
  have x: "syntax_check
         (env_no_tools\<lparr>compile := (\<lambda>src. Inl (OtherException ''RecursionError''))\<rparr>)
         ''print(1)'' = Inl (OtherException ''RecursionError'')"
    by (simp add: syntax_check_def)
  note t = absent_tool_adapters
    [of env_no_tools "''/tmp/tmpk3v9.py''" "''[Errno 2] No such file or directory''"
        "''[Errno 2] No such file or directory''" "''[Errno 2] No such file or directory''"
        "''[Errno 2] No such file or directory''" "''print(1)''" None
        "''Runtime error: [Errno 2] No such file or directory''"]
  note u = absent_tool_adapters
    [of "env_no_tools\<lparr>compile := (\<lambda>src. Inl (OtherException ''RecursionError''))\<rparr>"
        "''/tmp/tmpk3v9.py''" _ _ _ _ "''print(1)''" _ _ "OtherException ''RecursionError''"]
  show ?thesis
    using r s o x t u by simp
qed

theorem absent_tool_adapters_counterexample:
  "run env_no_tools [''bandit'', ''-q'', ''-f'', ''json'', ''/tmp/tmpk3v9.py''] 30
     = Inl (FileNotFoundError ''[Errno 2] No such file or directory'')
   \<and> run_bandit env_no_tools ''/tmp/tmpk3v9.py'' = Inr []
   \<and> run env_no_tools [''radon'', ''mi'', ''-j'', ''/tmp/tmpk3v9.py''] 20
     = Inl (FileNotFoundError ''[Errno 2] No such file or directory'')
   \<and> run env_no_tools [''radon'', ''cc'', ''-s'', ''-j'', ''/tmp/tmpk3v9.py''] 20
     = Inl (FileNotFoundError ''[Errno 2] No such file or directory'')
   \<and> run_radon_metrics env_no_tools ''/tmp/tmpk3v9.py''
     = \<lparr>mi = None, avg_cc = None, max_cc = None\<rparr>
   \<and> review env_no_tools \<lparr>req_filename = Some ''snippet.py'', req_code = Some ''print(1)''\<rparr>
     = Inr (Review
         \<lparr>res_summary =
            ''Maintainability Index: n/a | Complexity: avg n/a (n/a), max n/a | Ruff: 1 issues | Bandit: 0 findings'',
          res_issues =
            [\<lparr>type = Some ''RUFF_MISSING'', detail = Some ''ruff not installed in venv'',
              line = None\<rparr>],
          res_scores = \<lparr>readability = 0, complexity = 0, security = 95, testing = 20\<rparr>,
          res_output = ''Runtime error: [Errno 2] No such file or directory'',
          res_suggestions = [sugg_tests]\<rparr>)"
  by code_simp

section \<open>Properties of the review request\<close>

text \<open>
  C7. For every request whose code is not empty once trimmed and whose filename,
  trimmed and in lower case as the handler compares it, does not end in \<open>.py\<close>,
  the response is the fixed result: the explanatory summary, no issue, the four scores
  at 0, the fixed output text and one suggestion. The response is the same in every
  environment, so no tool has a part in it and two calls give the same response.
\<close>

theorem non_python_short_circuit:
  assumes "strip (or_else (req_code req) []) \<noteq> []"
    and "\<not> endswith (lower (strip (or_else (req_filename req) ''snippet.py''))) ''.py''"
  shows "review e req =
           Inr (Review
             \<lparr>res_summary =
                ''Non-Python file '' @ em_dash @ '' analysis is only enabled for .py in this MVP.'',
              res_issues = [],
              res_scores = \<lparr>readability = 0, complexity = 0, security = 0, testing = 0\<rparr>,
              res_output = ''(not run '' @ em_dash @ '' non-Python file)'',
              res_suggestions = [''Paste a .py file to get full analysis.'']\<rparr>)
       \<and> review e' req = review e req"
  using assms by (simp add: review_def Let_def non_python_result_def)

theorem non_python_short_circuit_witness:
  "strip (or_else (req_code \<lparr>req_filename = Some ''notes.txt'', req_code = Some ''print(1)''\<rparr>) [])
     \<noteq> []
   \<and> \<not> endswith (lower (strip (or_else
          (req_filename \<lparr>req_filename = Some ''notes.txt'', req_code = Some ''print(1)''\<rparr>)
          ''snippet.py''))) ''.py''
   \<and> review env_clean \<lparr>req_filename = Some ''notes.txt'', req_code = Some ''print(1)''\<rparr>
     = Inr (Review non_python_result)
   \<and> review env_no_tools \<lparr>req_filename = Some ''notes.txt'', req_code = Some ''print(1)''\<rparr>
     = review env_clean \<lparr>req_filename = Some ''notes.txt'', req_code = Some ''print(1)''\<rparr>"
proof -
  have h1: "strip (or_else
      (req_code \<lparr>req_filename = Some ''notes.txt'', req_code = Some ''print(1)''\<rparr>) []) \<noteq> []"
    by code_simp
  have h2: "\<not> endswith (lower (strip (or_else
          (req_filename \<lparr>req_filename = Some ''notes.txt'', req_code = Some ''print(1)''\<rparr>)
          ''snippet.py''))) ''.py''"
    by code_simp
  show ?thesis
    using h1 h2
      non_python_short_circuit [OF h1 h2, of env_clean env_no_tools]
    by (simp add: non_python_result_def)
qed


lemma snippet_py_is_python: "endswith (lower (strip ''snippet.py'')) ''.py''"
  by code_simp

lemma analyse_summary_head:
  "analyse e src path = Inr (Review r) \<Longrightarrow> hd (res_summary r) = CHR ''M''"
  by (auto simp: analyse_def Let_def pretty_summary_def split: sum.splits)

lemma analyse_not_non_python: "analyse e src path \<noteq> Inr (Review non_python_result)"
proof
  assume "analyse e src path = Inr (Review non_python_result)"
  then have "hd (res_summary non_python_result) = CHR ''M''"
    by (rule analyse_summary_head)
  then show False
    by (simp add: non_python_result_def)
qed


text \<open>
  C10. A request without a filename, or with an empty one, is answered as the same
  request with the filename \<open>snippet.py\<close>. Its response is never the fixed
  non-Python result, and when the code is not empty once trimmed it is the result of
  the full analysis of the code in its temporary file.
\<close>

theorem default_filename_is_python:
  assumes "req_filename req = None \<or> req_filename req = Some []"
  shows "review e req = review e (req\<lparr>req_filename := Some ''snippet.py''\<rparr>)
       \<and> review e req \<noteq> Inr (Review non_python_result)
       \<and> (strip (or_else (req_code req) []) \<noteq> [] \<longrightarrow>
            review e req =
              (case mktemp e (strip (or_else (req_code req) [])) of
                 Inl x \<Rightarrow> Inl x
               | Inr path \<Rightarrow> analyse e (strip (or_else (req_code req) [])) path))"
proof -
  have f: "or_else (req_filename req) ''snippet.py'' = ''snippet.py''"
    using assms by (auto simp: or_else_def)
  have r: "review e req =
      (if strip (or_else (req_code req) []) = [] then Inr (Failure ''No code provided.'' 400)
       else (case mktemp e (strip (or_else (req_code req) [])) of
                 Inl x \<Rightarrow> Inl x
               | Inr path \<Rightarrow> analyse e (strip (or_else (req_code req) [])) path))"
    by (simp add: review_def Let_def f snippet_py_is_python)
  have g: "or_else (Some ''snippet.py'') ''snippet.py'' = ''snippet.py''"
    by (simp add: or_else_def)
  have same: "review e req = review e (req\<lparr>req_filename := Some ''snippet.py''\<rparr>)"
    by (simp add: review_def Let_def f g)
  have differs: "review e req \<noteq> Inr (Review non_python_result)"
    unfolding r by (simp add: analyse_not_non_python split: sum.splits)
  have full: "strip (or_else (req_code req) []) \<noteq> [] \<longrightarrow>
            review e req =
              (case mktemp e (strip (or_else (req_code req) [])) of
                 Inl x \<Rightarrow> Inl x
               | Inr path \<Rightarrow> analyse e (strip (or_else (req_code req) [])) path)"
    unfolding r by simp
  from same differs full show ?thesis
    by blast
qed

theorem default_filename_is_python_witness:
  "req_filename \<lparr>req_filename = None, req_code = Some ''print(1)''\<rparr> = None
   \<and> strip (or_else (req_code \<lparr>req_filename = None, req_code = Some ''print(1)''\<rparr>) []) = ''print(1)''
   \<and> review env_clean \<lparr>req_filename = None, req_code = Some ''print(1)''\<rparr>
     = analyse env_clean ''print(1)'' ''/tmp/tmpk3v9.py''
   \<and> review env_clean \<lparr>req_filename = Some [], req_code = Some ''print(1)''\<rparr>
     = review env_clean \<lparr>req_filename = Some ''snippet.py'', req_code = Some ''print(1)''\<rparr>
   \<and> analyse env_clean ''print(1)'' ''/tmp/tmpk3v9.py''
     = Inr (Review
         \<lparr>res_summary =
            ''Maintainability Index: 100 | Complexity: avg 0.0 (trivial), max 0.0 | Ruff: 0 issues | Bandit: 0 findings'',
          res_issues = [],
          res_scores = \<lparr>readability = 100, complexity = 95, security = 95, testing = 20\<rparr>,
          res_output = ''1'',
          res_suggestions = [sugg_tests]\<rparr>)"
proof -
  have s: "strip (or_else (req_code \<lparr>req_filename = None, req_code = Some ''print(1)''\<rparr>) [])
      = ''print(1)''"
    by code_simp
  have a: "analyse env_clean ''print(1)'' ''/tmp/tmpk3v9.py''
     = Inr (Review
         \<lparr>res_summary =
            ''Maintainability Index: 100 | Complexity: avg 0.0 (trivial), max 0.0 | Ruff: 0 issues | Bandit: 0 findings'',
          res_issues = [],
          res_scores = \<lparr>readability = 100, complexity = 95, security = 95, testing = 20\<rparr>,
          res_output = ''1'',
          res_suggestions = [sugg_tests]\<rparr>)"
    by code_simp
  have m: "mktemp env_clean ''print(1)'' = Inr ''/tmp/tmpk3v9.py''"
    by (simp add: env_clean_def)
  have b: "review env_clean \<lparr>req_filename = None, req_code = Some ''print(1)''\<rparr>
     = analyse env_clean ''print(1)'' ''/tmp/tmpk3v9.py''"
    using default_filename_is_python
      [of "\<lparr>req_filename = None, req_code = Some ''print(1)''\<rparr>" env_clean,
       THEN conjunct2, THEN conjunct2] s m
    by simp
  have c: "review env_clean \<lparr>req_filename = Some [], req_code = Some ''print(1)''\<rparr>
     = review env_clean \<lparr>req_filename = Some ''snippet.py'', req_code = Some ''print(1)''\<rparr>"
    using default_filename_is_python
      [of "\<lparr>req_filename = Some [], req_code = Some ''print(1)''\<rparr>" env_clean,
       THEN conjunct1]
    by simp
  from s a b c show ?thesis
    by simp
qed

end
